theory Spec2Isabelle
  imports Main "HOL-Library.Multiset"
begin

section \<open>The reminder handler of telegram\_reminder\_agent.py\<close>

text \<open>
  The program is one message handler, \<open>handle_message\<close>, and one job callback,
  \<open>send_reminder\<close>. The handler asks a language-model chain for a \<open>task\<close> and a
  \<open>time\<close> field, parses the time with \<open>datetime.fromisoformat\<close>, tags a naive
  time as UTC, subtracts the current UTC time and registers a one-shot job with that delay;
  then it acknowledges. The callback sends \<open>Reminder: <task>\<close> to the job's chat.

  The chain, the parser of ISO strings, the clock and the job queue are libraries. The chain
  and the parser are parameters of the handler; the clock and the queue are fields of an
  explicit state. The program has no \<open>try\<close> statement, so an exception raised in the
  handler leaves it: a call of the handler ends either by returning or by raising, and the
  model says which, together with the state the call leaves behind.
  The answer of the chain is a dictionary from field names to strings, as the output parser
  of the chain builds it.
\<close>

subsection \<open>Datetimes and their arithmetic\<close>

text \<open>
  A \<open>datetime\<close> object: the calendar fields and \<open>tzinfo\<close>, which is \<open>None\<close>
  for a naive value and otherwise the fixed UTC offset, kept in microseconds
  (\<open>timezone.utc\<close> is offset 0). A \<open>timedelta\<close> is a number of microseconds.
\<close>

record datetime =
  year :: int
  month :: int
  day :: int
  hour :: int
  minute :: int
  second :: int
  microsecond :: int
  tzinfo :: "int option"

definition is_leap :: "int \<Rightarrow> bool" where
  "is_leap y \<longleftrightarrow> y mod 4 = 0 \<and> (y mod 100 \<noteq> 0 \<or> y mod 400 = 0)"

definition days_before_year :: "int \<Rightarrow> int" where
  "days_before_year y = (y - 1) * 365 + (y - 1) div 4 - (y - 1) div 100 + (y - 1) div 400"

definition days_in_month :: "int \<Rightarrow> int \<Rightarrow> int" where
  "days_in_month y m =
     (if m = 2 then (if is_leap y then 29 else 28)
      else if m = 4 \<or> m = 6 \<or> m = 9 \<or> m = 11 then 30 else 31)"

text \<open>Days of the year before the first of month \<open>m\<close>; \<open>m\<close> is in 1..12 in every
  datetime that was constructed, and 0 is returned outside (never read).\<close>

definition days_before_month :: "int \<Rightarrow> int \<Rightarrow> int" where
  "days_before_month y m =
     (if 1 \<le> m \<and> m \<le> 12
      then [0, 31, 59, 90, 120, 151, 181, 212, 243, 273, 304, 334] ! nat (m - 1)
           + (if 2 < m \<and> is_leap y then 1 else 0)
      else 0)"

definition toordinal :: "datetime \<Rightarrow> int" where
  "toordinal d = days_before_year (year d) + days_before_month (year d) (month d) + day d"

text \<open>The calendar fields read as a count of microseconds, the offset ignored.\<close>

definition naive_micros :: "datetime \<Rightarrow> int" where
  "naive_micros d =
     ((toordinal d * 24 + hour d) * 60 + minute d) * 60 * 1000000
       + second d * 1000000 + microsecond d"

text \<open>The instant an aware datetime denotes, on the same scale in UTC.\<close>

definition utc_micros :: "datetime \<Rightarrow> int option" where
  "utc_micros d = (case tzinfo d of None \<Rightarrow> None | Some off \<Rightarrow> Some (naive_micros d - off))"

subsection \<open>Exceptions\<close>

datatype exn = ChainError string | KeyError string | ValueError | TypeError

text \<open>How a call ends: it returns a value, or an exception leaves it uncaught.\<close>

datatype 'a outcome = Returns 'a | Raises exn

text \<open>
  \<open>remind_time - datetime.now(timezone.utc)\<close>: the right operand is aware, with offset 0,
  and denotes the instant \<open>now\<close>. Subtracting it from a naive datetime raises TypeError;
  from an aware one the result is the difference of the two instants.
\<close>

definition sub_now :: "datetime \<Rightarrow> int \<Rightarrow> int outcome" where
  "sub_now d now = (case tzinfo d of None \<Rightarrow> Raises TypeError
                    | Some off \<Rightarrow> Returns (naive_micros d - now - off))"

subsection \<open>A model of \<open>datetime.fromisoformat\<close> and of \<open>isoformat\<close>\<close>

text \<open>
  The handler below takes the parser as a parameter, so what is proved of it holds for the
  parser of every Python version. For running it on concrete strings, \<open>fromisoformat\<close>
  models the parser on the form that \<open>isoformat\<close> writes and that every version reads:
  \<open>YYYY-MM-DD\<close>, alone or followed by \<open>T\<close> or a space, \<open>HH:MM:SS\<close>, optionally
  \<open>.fff\<close> or \<open>.ffffff\<close>, optionally \<open>+HH:MM\<close> or \<open>-HH:MM\<close>. The fields are
  range-checked as the datetime constructor does. \<open>None\<close> stands for ValueError.
  The library reads more forms than this one (a \<open>Z\<close> suffix, a time without seconds,
  other fractions and offsets); the model rejects them and is run only on strings of the
  form above and on a string that is no date at all.
\<close>

definition digit_val :: "char \<Rightarrow> int option" where
  "digit_val c = (let n = (of_char c :: nat) in
                    if 48 \<le> n \<and> n \<le> 57 then Some (int n - 48) else None)"

fun digits_acc :: "int \<Rightarrow> string \<Rightarrow> int option" where
  "digits_acc acc [] = Some acc"
| "digits_acc acc (c # cs) =
     (case digit_val c of None \<Rightarrow> None | Some v \<Rightarrow> digits_acc (acc * 10 + v) cs)"

definition parse_digits :: "string \<Rightarrow> int option" where
  "parse_digits s = (if s = [] then None else digits_acc 0 s)"

definition parse_date :: "string \<Rightarrow> (int \<times> int \<times> int) option" where
  "parse_date s =
     (if length s \<noteq> 10 \<or> s ! 4 \<noteq> CHR ''-'' \<or> s ! 7 \<noteq> CHR ''-'' then None
      else case (parse_digits (take 4 s), parse_digits (take 2 (drop 5 s)),
                 parse_digits (drop 8 s)) of
             (Some y, Some m, Some d) \<Rightarrow>
               if 1 \<le> y \<and> y \<le> 9999 \<and> 1 \<le> m \<and> m \<le> 12 \<and> 1 \<le> d \<and> d \<le> days_in_month y m
               then Some (y, m, d) else None
           | _ \<Rightarrow> None)"

definition parse_hms :: "string \<Rightarrow> (int \<times> int \<times> int) option" where
  "parse_hms s =
     (if length s \<noteq> 8 \<or> s ! 2 \<noteq> CHR '':'' \<or> s ! 5 \<noteq> CHR '':'' then None
      else case (parse_digits (take 2 s), parse_digits (take 2 (drop 3 s)),
                 parse_digits (drop 6 s)) of
             (Some h, Some mi, Some sec) \<Rightarrow>
               if h \<le> 23 \<and> mi \<le> 59 \<and> sec \<le> 59 then Some (h, mi, sec) else None
           | _ \<Rightarrow> None)"

definition parse_fraction :: "string \<Rightarrow> int option" where
  "parse_fraction s =
     (if s = [] then Some 0
      else if hd s \<noteq> CHR ''.'' then None
      else if length s = 4 then map_option (\<lambda>v. v * 1000) (parse_digits (tl s))
      else if length s = 7 then parse_digits (tl s)
      else None)"

definition parse_offset :: "string \<Rightarrow> int option option" where
  "parse_offset s =
     (if s = [] then Some None
      else if length s \<noteq> 6 \<or> (hd s \<noteq> CHR ''+'' \<and> hd s \<noteq> CHR ''-'') \<or> s ! 3 \<noteq> CHR '':''
      then None
      else case (parse_digits (take 2 (tl s)), parse_digits (drop 4 s)) of
             (Some h, Some mi) \<Rightarrow>
               if h \<le> 23 \<and> mi \<le> 59
               then Some (Some ((if hd s = CHR ''-'' then - 1 else 1)
                                 * ((h * 60 + mi) * 60 * 1000000)))
               else None
           | _ \<Rightarrow> None)"

definition split_offset :: "string \<Rightarrow> string \<times> string" where
  "split_offset s =
     (takeWhile (\<lambda>c. c \<noteq> CHR ''+'' \<and> c \<noteq> CHR ''-'') s,
      dropWhile (\<lambda>c. c \<noteq> CHR ''+'' \<and> c \<noteq> CHR ''-'') s)"

definition parse_time :: "string \<Rightarrow> (int \<times> int \<times> int \<times> int \<times> int option) option" where
  "parse_time s =
     (let (body, off) = split_offset s in
      case (parse_hms (take 8 body), parse_fraction (drop 8 body), parse_offset off) of
        (Some (h, mi, sec), Some us, Some tz) \<Rightarrow> Some (h, mi, sec, us, tz)
      | _ \<Rightarrow> None)"

definition fromisoformat :: "string \<Rightarrow> datetime option" where
  "fromisoformat s =
     (case parse_date (take 10 s) of
        None \<Rightarrow> None
      | Some (y, m, d) \<Rightarrow>
          if length s = 10
          then Some \<lparr>year = y, month = m, day = d, hour = 0, minute = 0, second = 0,
                     microsecond = 0, tzinfo = None\<rparr>
          else if s ! 10 \<noteq> CHR ''T'' \<and> s ! 10 \<noteq> CHR '' '' then None
          else case parse_time (drop 11 s) of
                 None \<Rightarrow> None
               | Some (h, mi, sec, us, tz) \<Rightarrow>
                   Some \<lparr>year = y, month = m, day = d, hour = h, minute = mi, second = sec,
                         microsecond = us, tzinfo = tz\<rparr>)"

text \<open>\<open>isoformat\<close>: zero-padded fields, the fraction when the microsecond is not 0, the
  offset of an aware value as \<open>+HH:MM\<close>, with seconds and a fraction when it has them.\<close>

definition digit_char :: "int \<Rightarrow> char" where
  "digit_char n = ''0123456789'' ! nat (n mod 10)"

text \<open>\<open>%02d\<close>, \<open>%04d\<close> and \<open>%06d\<close> on a field within its range.\<close>

definition pad2 :: "int \<Rightarrow> string" where
  "pad2 n = [digit_char (n div 10), digit_char n]"

definition pad4 :: "int \<Rightarrow> string" where
  "pad4 n = [digit_char (n div 1000), digit_char (n div 100), digit_char (n div 10),
             digit_char n]"

definition pad6 :: "int \<Rightarrow> string" where
  "pad6 n = [digit_char (n div 100000), digit_char (n div 10000), digit_char (n div 1000),
             digit_char (n div 100), digit_char (n div 10), digit_char n]"

definition format_offset :: "int \<Rightarrow> string" where
  "format_offset off =
     (let a = \<bar>off\<bar>;
          us = a mod 1000000; s = a div 1000000;
          hh = s div 3600; mm = (s mod 3600) div 60; ss = s mod 60
      in (if off < 0 then ''-'' else ''+'') @ pad2 hh @ '':'' @ pad2 mm
         @ (if ss \<noteq> 0 \<or> us \<noteq> 0 then '':'' @ pad2 ss else [])
         @ (if us \<noteq> 0 then ''.'' @ pad6 us else []))"

definition isoformat :: "datetime \<Rightarrow> string" where
  "isoformat d =
     pad4 (year d) @ ''-'' @ pad2 (month d) @ ''-'' @ pad2 (day d)
     @ ''T'' @ pad2 (hour d) @ '':'' @ pad2 (minute d) @ '':'' @ pad2 (second d)
     @ (if microsecond d \<noteq> 0 then ''.'' @ pad6 (microsecond d) else [])
     @ (case tzinfo d of None \<Rightarrow> [] | Some off \<Rightarrow> format_offset off)"

subsection \<open>The state: clock, job queue, messages sent\<close>

text \<open>
  \<open>context.job_queue.run_once(callback, when, chat_id, data)\<close> registers a job that
  the queue runs once, \<open>when\<close> after the call. The model keeps the arguments of the call
  and the instant \<open>run_at\<close> that the queue computes from its clock. The only callback the
  program registers is \<open>send_reminder\<close>. The Job object that \<open>run_once\<close>
  returns is dropped by the program, so the model returns the state only.
\<close>

datatype callback = SendReminder

record job =
  callback :: callback
  when_delay :: int
  chat_id :: int
  data :: string
  run_at :: int

record state =
  clock :: int
  jobs :: "job list"
  sent :: "(int \<times> string) list"
  replies :: "(int \<times> string) list"

record update =
  message_text :: string
  effective_chat_id :: int

definition run_once :: "callback \<Rightarrow> int \<Rightarrow> int \<Rightarrow> string \<Rightarrow> state \<Rightarrow> state" where
  "run_once cb delay cid dat st =
     st\<lparr>jobs := jobs st @ [\<lparr>callback = cb, when_delay = delay, chat_id = cid, data = dat,
                               run_at = clock st + delay\<rparr>]\<rparr>"

definition send_message :: "int \<Rightarrow> string \<Rightarrow> state \<Rightarrow> state" where
  "send_message cid txt st = st\<lparr>sent := sent st @ [(cid, txt)]\<rparr>"

definition reply_text :: "update \<Rightarrow> string \<Rightarrow> state \<Rightarrow> state" where
  "reply_text upd txt st = st\<lparr>replies := replies st @ [(effective_chat_id upd, txt)]\<rparr>"

subsection \<open>The program\<close>

text \<open>Lines 67 and 68 of the handler: a naive time is tagged as UTC, an aware one is kept
  as it is.\<close>

definition assume_utc :: "datetime \<Rightarrow> datetime" where
  "assume_utc remind_time =
     (if tzinfo remind_time = None then remind_time\<lparr>tzinfo := Some 0\<rparr> else remind_time)"

definition send_reminder :: "job \<Rightarrow> state \<Rightarrow> state" where
  "send_reminder j st = send_message (chat_id j) (''Reminder: '' @ data j) st"

definition handle_message ::
  "(string \<Rightarrow> datetime option) \<Rightarrow> (string \<Rightarrow> (string \<rightharpoonup> string) outcome) \<Rightarrow>
     update \<Rightarrow> state \<Rightarrow> unit outcome \<times> state" where
  "handle_message fromiso chain upd st =
     (let user_text = message_text upd in
      case chain user_text of
        Raises e \<Rightarrow> (Raises e, st)
      | Returns parsed \<Rightarrow>
         (case parsed ''task'' of
            None \<Rightarrow> (Raises (KeyError ''task''), st)
          | Some task \<Rightarrow>
             (case parsed ''time'' of
                None \<Rightarrow> (Raises (KeyError ''time''), st)
              | Some time_str \<Rightarrow>
                 (case fromiso time_str of
                    None \<Rightarrow> (Raises ValueError, st)
                  | Some parsed_time \<Rightarrow>
                     (let remind_time = assume_utc parsed_time;
                          cid = effective_chat_id upd
                      in case sub_now remind_time (clock st) of
                           Raises e \<Rightarrow> (Raises e, st)
                         | Returns delay \<Rightarrow>
                            (let st1 = run_once SendReminder delay cid task st;
                                 st2 = reply_text upd
                                         (''Got it! I'' @ [CHR 0x27] @ ''ll remind you to '' @ task
                                            @ '' at '' @ isoformat remind_time) st1
                             in (Returns (), st2)))))))"

subsection \<open>Running the queue\<close>

text \<open>
  The queue is the library's: the job queue of python-telegram-bot, which hands its jobs to
  a scheduler with that scheduler's default settings; the program changes none of them. What
  is modelled of it:
  \<^item> a job registered at clock \<open>c\<close> with delay \<open>w\<close> has the run time \<open>c + w\<close>;
  \<^item> when the clock has reached the run time of a job, the scheduler takes the job out of the
    queue and runs its callback, once; jobs are taken in the order of their run times (jobs
    with the same run time in the order of registration here; the library leaves it open);
  \<^item> a job whose run time lay more than \<open>misfire_grace_time\<close>, one second, in the past
    when it was registered is taken out of the queue without running: it is missed;
  \<^item> the clock does not go back, and the scheduler's own latency is taken as zero.
\<close>

definition misfire_grace_time :: int where
  "misfire_grace_time = 1000000"

definition due :: "int \<Rightarrow> job \<Rightarrow> bool" where
  "due t j \<longleftrightarrow> run_at j \<le> t"

definition missed :: "job \<Rightarrow> bool" where
  "missed j \<longleftrightarrow> misfire_grace_time < - when_delay j"

definition run_job :: "job \<Rightarrow> state \<Rightarrow> state" where
  "run_job j st = (case callback j of SendReminder \<Rightarrow> send_reminder j st)"

definition advance_to :: "int \<Rightarrow> state \<Rightarrow> state" where
  "advance_to t st =
     (if t < clock st then st
      else fold run_job
             (filter (\<lambda>j. \<not> missed j) (sort_key run_at (filter (due t) (jobs st))))
             (st\<lparr>clock := t, jobs := filter (\<lambda>j. \<not> due t j) (jobs st)\<rparr>))"

subsection \<open>Stub collaborators for running the handler\<close>

text \<open>A chain that answers every message with the two given fields, and the state of a
  fresh process at a given instant.\<close>

definition stub_chain :: "string \<Rightarrow> string \<Rightarrow> string \<Rightarrow> (string \<rightharpoonup> string) outcome" where
  "stub_chain task time_str = (\<lambda>msg. Returns [''task'' \<mapsto> task, ''time'' \<mapsto> time_str])"

definition fresh :: "int \<Rightarrow> state" where
  "fresh now = \<lparr>clock = now, jobs = [], sent = [], replies = []\<rparr>"

definition msg_from :: "int \<Rightarrow> string \<Rightarrow> update" where
  "msg_from cid txt = \<lparr>message_text = txt, effective_chat_id = cid\<rparr>"

text \<open>
  The scenario of the specification: at 2024-01-01T00:00:00Z the chain extracts the task
  \<open>call Sam\<close> and a time the next day at 14:00 UTC, written with its offset, without
  one, and as the same instant at offset +02:00. Instants are microseconds counted from the
  day before 0001-01-01, as \<open>naive_micros\<close> counts them.
\<close>

definition new_year_2024 :: int where
  "new_year_2024 = 63839750400000000"

text \<open>Five minutes, and half a second, after the requested time.\<close>

definition five_minutes_late :: int where
  "five_minutes_late = new_year_2024 + 137100000000"

definition half_second_late :: int where
  "half_second_late = new_year_2024 + 136800500000"

definition time_utc :: string where
  "time_utc = ''2024-01-02T14:00:00+00:00''"

definition time_naive :: string where
  "time_naive = ''2024-01-02T14:00:00''"

definition time_plus2 :: string where
  "time_plus2 = ''2024-01-02T16:00:00+02:00''"

definition sam_update :: update where
  "sam_update = msg_from 42 ''remind me to call Sam tomorrow at 2pm UTC''"

definition at_2pm :: "int option \<Rightarrow> datetime" where
  "at_2pm tz = \<lparr>year = 2024, month = 1, day = 2, hour = 14, minute = 0, second = 0,
                 microsecond = 0, tzinfo = tz\<rparr>"

definition at_4pm_plus2 :: datetime where
  "at_4pm_plus2 = \<lparr>year = 2024, month = 1, day = 2, hour = 16, minute = 0, second = 0,
                    microsecond = 0, tzinfo = Some 7200000000\<rparr>"

section \<open>What the queue and the handler compute\<close>

text \<open>Running the queue and a successful run of the handler in closed form.\<close>

lemma run_job_eq:
  "run_job j st = st\<lparr>sent := sent st @ [(chat_id j, ''Reminder: '' @ data j)]\<rparr>"
  by (cases "callback j") (simp add: run_job_def send_reminder_def send_message_def)

lemma fold_run_job:
  "fold run_job js st = st\<lparr>sent := sent st @ map (\<lambda>j. (chat_id j, ''Reminder: '' @ data j)) js\<rparr>"
proof (induction js arbitrary: st)
  case Nil
  show ?case by simp
next
  case (Cons j js)
  have "fold run_job (j # js) st = fold run_job js (run_job j st)"
    by simp
  also have "\<dots> = (run_job j st)\<lparr>sent := sent (run_job j st)
                        @ map (\<lambda>j. (chat_id j, ''Reminder: '' @ data j)) js\<rparr>"
    by (rule Cons.IH)
  also have "\<dots> = st\<lparr>sent := sent st
                        @ map (\<lambda>j. (chat_id j, ''Reminder: '' @ data j)) (j # js)\<rparr>"
    by (simp add: run_job_eq)
  finally show ?case .
qed

lemma advance_to_eq:
  "advance_to t st =
     (if t < clock st then st
      else st\<lparr>clock := t, jobs := filter (\<lambda>j. \<not> due t j) (jobs st),
              sent := sent st @ map (\<lambda>j. (chat_id j, ''Reminder: '' @ data j))
                        (sort_key run_at (filter (\<lambda>j. due t j \<and> \<not> missed j) (jobs st)))\<rparr>)"
  by (simp add: advance_to_def fold_run_job filter_sort)

lemma advance_to_snoc_runs:
  assumes "clock st \<le> t" and "due t j" and "\<not> missed j"
  shows "mset (sent (advance_to t (st\<lparr>jobs := jobs st @ [j], replies := r\<rparr>)))
           = mset (sent (advance_to t st)) + {#(chat_id j, ''Reminder: '' @ data j)#}"
  using assms by (simp add: advance_to_eq)

lemma advance_to_snoc_idle:
  assumes "\<not> (clock st \<le> t \<and> due t j \<and> \<not> missed j)"
  shows "sent (advance_to t (st\<lparr>jobs := jobs st @ [j], replies := r\<rparr>)) = sent (advance_to t st)"
  using assms by (auto simp: advance_to_eq)

lemma advance_to_snoc_jobs:
  "jobs (advance_to t (st\<lparr>jobs := jobs st @ [j], replies := r\<rparr>))
     = jobs (advance_to t st) @ (if clock st \<le> t \<and> due t j then [] else [j])"
  by (simp add: advance_to_eq)



lemma utc_micros_assume_utc:
  "utc_micros (assume_utc d) = Some (naive_micros d - (case tzinfo d of None \<Rightarrow> 0 | Some off \<Rightarrow> off))"
  by (simp add: utc_micros_def assume_utc_def naive_micros_def toordinal_def split: option.split)

lemma sub_now_assume_utc:
  "utc_micros (assume_utc d) = Some fire \<Longrightarrow> sub_now (assume_utc d) now = Returns (fire - now)"
  by (auto simp: utc_micros_def sub_now_def split: option.splits)

lemma handle_message_ok:
  assumes "chain (message_text upd) = Returns parsed"
    and "parsed ''task'' = Some task"
    and "parsed ''time'' = Some ts"
    and "fromiso ts = Some d"
    and "utc_micros (assume_utc d) = Some fire"
  shows "handle_message fromiso chain upd st =
           (Returns (), st\<lparr>jobs := jobs st @ [\<lparr>callback = SendReminder, when_delay = fire - clock st,
                                            chat_id = effective_chat_id upd, data = task,
                                            run_at = fire\<rparr>],
                       replies := replies st @ [(effective_chat_id upd,
                          ''Got it! I'' @ [CHR 0x27] @ ''ll remind you to '' @ task @ '' at ''
                            @ isoformat (assume_utc d))]\<rparr>)"
  using assms
  by (simp add: handle_message_def sub_now_assume_utc run_once_def reply_text_def)

subsection \<open>The scenario, evaluated\<close>

lemma stub_chain_fields:
  "stub_chain task ts msg = Returns [''task'' \<mapsto> task, ''time'' \<mapsto> ts]"
  "[''task'' \<mapsto> task, ''time'' \<mapsto> ts] ''task'' = Some task"
  "[''task'' \<mapsto> task, ''time'' \<mapsto> (ts::string)] ''time'' = Some ts"
  by (simp_all add: stub_chain_def)

lemma parse_time_utc: "fromisoformat time_utc = Some (at_2pm (Some 0))"
  by code_simp

lemma parse_time_naive: "fromisoformat time_naive = Some (at_2pm None)"
  by code_simp

lemma parse_time_plus2: "fromisoformat time_plus2 = Some at_4pm_plus2"
  by code_simp

lemma parse_not_a_date: "fromisoformat ''not-a-date'' = None"
  by code_simp

lemma fire_time_utc:
  "utc_micros (assume_utc (at_2pm (Some 0))) = Some (new_year_2024 + 136800000000)"
  by code_simp

lemma fire_time_naive:
  "utc_micros (assume_utc (at_2pm None)) = Some (new_year_2024 + 136800000000)"
  by code_simp

lemma fire_time_plus2:
  "utc_micros (assume_utc at_4pm_plus2) = Some (new_year_2024 + 136800000000)"
  by code_simp

lemma sam_update_fields:
  "effective_chat_id sam_update = 42"
  "message_text sam_update = ''remind me to call Sam tomorrow at 2pm UTC''"
  by (simp_all add: sam_update_def msg_from_def)

lemma advance_fresh:
  "sent (advance_to t (fresh now)) = []" "jobs (advance_to t (fresh now)) = []"
  by (simp_all add: advance_to_eq fresh_def)

section \<open>The claims\<close>




text \<open>
  C3, as stated, fails: no error value is returned. With the time field \<open>not-a-date\<close>
  the call of the handler does not return at all: the ValueError of the parser leaves it,
  uncaught.
\<close>

theorem malformed_timestamp_counterexample:
  "fst (handle_message fromisoformat (stub_chain ''call Sam'' ''not-a-date'') sam_update
          (fresh new_year_2024)) = Raises ValueError
     \<and> fst (handle_message fromisoformat (stub_chain ''call Sam'' ''not-a-date'') sam_update
              (fresh new_year_2024)) \<noteq> Returns ()"
  by (simp add: handle_message_def stub_chain_def parse_not_a_date)

text \<open>
  C3, amended. When the chain's answer has both fields and the time field, a string, does not
  parse, the call of the handler ends by raising ValueError, which nothing in the program
  catches; it returns no value. The exception is raised before the job is registered and
  before the acknowledgement: the state is as it was, so no job, and with it no wrong
  instant, is registered and nothing is sent or replied. What becomes of the exception is
  decided by the caller of the handler, outside the program.
\<close>

theorem malformed_timestamp_raises:
  assumes "chain (message_text upd) = Returns parsed"
    and "parsed ''task'' = Some task"
    and "parsed ''time'' = Some ts"
    and "fromiso ts = None"
  shows "handle_message fromiso chain upd st = (Raises ValueError, st)"
  using assms by (simp add: handle_message_def)

theorem malformed_timestamp_raises_witness:
  "fromisoformat ''not-a-date'' = None
     \<and> handle_message fromisoformat (stub_chain ''call Sam'' ''not-a-date'') sam_update
           (fresh new_year_2024) = (Raises ValueError, fresh new_year_2024)"
  using malformed_timestamp_raises [where chain = "stub_chain ''call Sam'' ''not-a-date''"
      and fromiso = fromisoformat and upd = sam_update and st = "fresh new_year_2024",
      OF stub_chain_fields(1) stub_chain_fields(2) stub_chain_fields(3) parse_not_a_date]
    parse_not_a_date
  by simp

text \<open>
  C4, as stated, fails: the handler never looks at the task. With a task of three spaces and
  a time that parses, it returns without error and registers a job that carries the three
  spaces.
\<close>

theorem blank_task_counterexample:
  "fst (handle_message fromisoformat (stub_chain ''   '' time_utc) sam_update
          (fresh new_year_2024)) = Returns ()
     \<and> map data (jobs (snd (handle_message fromisoformat (stub_chain ''   '' time_utc)
                               sam_update (fresh new_year_2024)))) = [''   '']"
  by (simp add: handle_message_ok [where chain = "stub_chain ''   '' time_utc"
        and fromiso = fromisoformat, OF stub_chain_fields(1) stub_chain_fields(2)
          stub_chain_fields(3) parse_time_utc fire_time_utc] fresh_def)

text \<open>
  C4, amended. The task is not validated: whenever the answer has both fields and the time
  parses, the handler succeeds whatever the task is, empty and blank ones included, and the
  job it adds to the queue carries the task unchanged.
\<close>

theorem task_is_not_validated:
  assumes "chain (message_text upd) = Returns parsed"
    and "parsed ''task'' = Some task"
    and "parsed ''time'' = Some ts"
    and "fromiso ts = Some d"
  shows "fst (handle_message fromiso chain upd st) = Returns ()
           \<and> map data (jobs (snd (handle_message fromiso chain upd st)))
               = map data (jobs st) @ [task]"
  by (simp add: handle_message_ok [where chain = chain and fromiso = fromiso
        and parsed = parsed, OF assms utc_micros_assume_utc])

theorem task_is_not_validated_witness:
  "fst (handle_message fromisoformat (stub_chain [] time_utc) sam_update
          (fresh new_year_2024)) = Returns ()
     \<and> map data (jobs (snd (handle_message fromisoformat (stub_chain [] time_utc)
                               sam_update (fresh new_year_2024)))) = [[]]"
  using task_is_not_validated [where chain = "stub_chain [] time_utc"
      and fromiso = fromisoformat and upd = sam_update and st = "fresh new_year_2024",
      OF stub_chain_fields(1) stub_chain_fields(2) stub_chain_fields(3) parse_time_utc]
  by (simp add: fresh_def)

text \<open>
  C5. A parsed time without offset is tagged with offset 0, its calendar fields unchanged, so
  the instant it denotes is its fields read in UTC; the job is registered for that instant,
  with the delay counted from the UTC clock, and the acknowledgement prints the tagged time.
  Nothing but the parsed fields and the UTC clock enters the computation.
\<close>

theorem naive_time_is_taken_as_utc:
  assumes "chain (message_text upd) = Returns parsed"
    and "parsed ''task'' = Some task"
    and "parsed ''time'' = Some ts"
    and "fromiso ts = Some d"
    and "tzinfo d = None"
  shows "assume_utc d = d\<lparr>tzinfo := Some 0\<rparr>
           \<and> utc_micros (assume_utc d) = Some (naive_micros d)
           \<and> handle_message fromiso chain upd st =
               (Returns (), st\<lparr>jobs := jobs st @ [\<lparr>callback = SendReminder,
                                  when_delay = naive_micros d - clock st,
                                  chat_id = effective_chat_id upd, data = task,
                                  run_at = naive_micros d\<rparr>],
                           replies := replies st @ [(effective_chat_id upd,
                              ''Got it! I'' @ [CHR 0x27] @ ''ll remind you to '' @ task
                                @ '' at '' @ isoformat (d\<lparr>tzinfo := Some 0\<rparr>))]\<rparr>)"
proof -
  have tag: "assume_utc d = d\<lparr>tzinfo := Some 0\<rparr>"
    using assms(5) by (simp add: assume_utc_def)
  have inst: "utc_micros (assume_utc d) = Some (naive_micros d)"
    using assms(5) by (simp add: utc_micros_assume_utc)
  note ok = handle_message_ok [where chain = chain and fromiso = fromiso and parsed = parsed
      and st = st, OF assms(1-4) inst]
  show ?thesis
    using tag inst ok by simp
qed

theorem naive_time_is_taken_as_utc_witness:
  "tzinfo (at_2pm None) = None
     \<and> assume_utc (at_2pm None) = at_2pm (Some 0)
     \<and> utc_micros (assume_utc (at_2pm None)) = Some (new_year_2024 + 136800000000)
     \<and> map run_at (jobs (snd (handle_message fromisoformat (stub_chain ''call Sam'' time_naive)
                                 sam_update (fresh new_year_2024))))
         = [new_year_2024 + 136800000000]"
proof -
  have naive: "tzinfo (at_2pm None) = None"
    by (simp add: at_2pm_def)
  have micros: "naive_micros (at_2pm None) = new_year_2024 + 136800000000"
    by code_simp
  note inst = naive_time_is_taken_as_utc [where chain = "stub_chain ''call Sam'' time_naive"
      and fromiso = fromisoformat and upd = sam_update and st = "fresh new_year_2024",
      OF stub_chain_fields(1) stub_chain_fields(2) stub_chain_fields(3)
        parse_time_naive naive]
  have tag: "assume_utc (at_2pm None) = at_2pm (Some 0)"
    using inst [THEN conjunct1] by (simp add: at_2pm_def)
  have fire: "utc_micros (assume_utc (at_2pm None)) = Some (new_year_2024 + 136800000000)"
    using inst [THEN conjunct2, THEN conjunct1] micros by simp
  have run: "map run_at (jobs (snd (handle_message fromisoformat
        (stub_chain ''call Sam'' time_naive) sam_update (fresh new_year_2024))))
      = [new_year_2024 + 136800000000]"
    using inst [THEN conjunct2, THEN conjunct2] micros by (simp add: fresh_def)
  from naive tag fire run show ?thesis by blast
qed

text \<open>
  C6, as stated, fails: the delay is not clamped. Five minutes after the requested time the
  handler passes a delay of minus five minutes to \<open>run_once\<close>.
\<close>

theorem negative_delay_counterexample:
  "map when_delay (jobs (snd (handle_message fromisoformat (stub_chain ''call Sam'' time_utc)
                                sam_update (fresh (new_year_2024 + 137100000000)))))
     = [- 300000000]"
  by (simp add: handle_message_ok [where chain = "stub_chain ''call Sam'' time_utc"
        and fromiso = fromisoformat, OF stub_chain_fields(1) stub_chain_fields(2)
          stub_chain_fields(3) parse_time_utc fire_time_utc] fresh_def)

text \<open>
  C6, amended. When the requested instant is not after the clock, the handler does not reject
  the request and does not change the delay: it registers a job with the delay
  \<open>fire - now\<close> itself, zero or negative. What follows is the scheduler's doing. If the
  request is at most the grace time of one second late, the job runs when the queue is run
  at the unchanged clock: the reminder is delivered at once. If it is more than one second
  late, the job is missed: at no instant is anything sent for it. In both cases the job has
  left the queue after that run.
\<close>

theorem past_time_is_scheduled_unclamped:
  assumes "chain (message_text upd) = Returns parsed"
    and "parsed ''task'' = Some task"
    and "parsed ''time'' = Some ts"
    and "fromiso ts = Some d"
    and "utc_micros (assume_utc d) = Some fire"
    and "fire \<le> clock st"
  shows "\<exists>st'. handle_message fromiso chain upd st = (Returns (), st')
           \<and> clock st' = clock st
           \<and> jobs st' = jobs st @ [\<lparr>callback = SendReminder, when_delay = fire - clock st,
                                       chat_id = effective_chat_id upd, data = task,
                                       run_at = fire\<rparr>]
           \<and> fire - clock st \<le> 0
           \<and> (clock st - fire \<le> misfire_grace_time \<longrightarrow>
                 mset (sent (advance_to (clock st') st'))
                   = mset (sent (advance_to (clock st) st))
                       + {#(effective_chat_id upd, ''Reminder: '' @ task)#})
           \<and> (misfire_grace_time < clock st - fire \<longrightarrow>
                 (\<forall>t. sent (advance_to t st') = sent (advance_to t st)))
           \<and> jobs (advance_to (clock st') st') = jobs (advance_to (clock st) st)"
proof -
  define j where "j = \<lparr>callback = SendReminder, when_delay = fire - clock st,
      chat_id = effective_chat_id upd, data = task, run_at = fire\<rparr>"
  define r where "r = replies st @ [(effective_chat_id upd,
      ''Got it! I'' @ [CHR 0x27] @ ''ll remind you to '' @ task @ '' at ''
        @ isoformat (assume_utc d))]"
  define st' where "st' = st\<lparr>jobs := jobs st @ [j], replies := r\<rparr>"
  have run: "handle_message fromiso chain upd st = (Returns (), st')"
    unfolding st'_def j_def r_def
    by (rule handle_message_ok [where chain = chain and fromiso = fromiso
          and parsed = parsed and st = st, OF assms(1-5)])
  have clk: "clock st' = clock st"
    by (simp add: st'_def)
  have js: "jobs st' = jobs st @ [\<lparr>callback = SendReminder, when_delay = fire - clock st,
      chat_id = effective_chat_id upd, data = task, run_at = fire\<rparr>]"
    by (simp add: st'_def j_def)
  have neg: "fire - clock st \<le> 0"
    using assms(6) by simp
  have due_j: "due (clock st) j"
    using assms(6) by (simp add: due_def j_def)
  have missed_j: "missed j \<longleftrightarrow> misfire_grace_time < clock st - fire"
    by (simp add: missed_def j_def)
  have msg: "chat_id j = effective_chat_id upd" "data j = task"
    by (simp_all add: j_def)
  have ontime: "clock st - fire \<le> misfire_grace_time \<longrightarrow>
      mset (sent (advance_to (clock st') st'))
        = mset (sent (advance_to (clock st) st))
            + {#(effective_chat_id upd, ''Reminder: '' @ task)#}"
    unfolding clk unfolding st'_def
    by (simp add: advance_to_snoc_runs due_j missed_j msg)
  have late: "misfire_grace_time < clock st - fire \<longrightarrow>
      (\<forall>t. sent (advance_to t st') = sent (advance_to t st))"
    unfolding st'_def
    by (simp add: advance_to_snoc_idle missed_j)
  have gone: "jobs (advance_to (clock st') st') = jobs (advance_to (clock st) st)"
    unfolding clk unfolding st'_def
    by (simp add: advance_to_snoc_jobs due_j)
  show ?thesis
    by (intro exI [of _ st'] conjI run clk js neg ontime late gone)
qed

theorem past_time_is_scheduled_unclamped_witness:
  "new_year_2024 + 136800000000 \<le> clock (fresh five_minutes_late)
     \<and> (\<exists>st'. handle_message fromisoformat (stub_chain ''call Sam'' time_utc) sam_update
                  (fresh five_minutes_late) = (Returns (), st')
            \<and> map when_delay (jobs st') = [- 300000000]
            \<and> sent (advance_to five_minutes_late st') = []
            \<and> sent (advance_to (five_minutes_late + 999999999999) st') = []
            \<and> jobs (advance_to five_minutes_late st') = [])
     \<and> new_year_2024 + 136800000000 \<le> clock (fresh half_second_late)
     \<and> (\<exists>st'. handle_message fromisoformat (stub_chain ''call Sam'' time_utc) sam_update
                  (fresh half_second_late) = (Returns (), st')
            \<and> map when_delay (jobs st') = [- 500000]
            \<and> mset (sent (advance_to half_second_late st'))
                = {#(42, ''Reminder: call Sam'')#}
            \<and> jobs (advance_to half_second_late st') = [])"
proof -
  have late5: "new_year_2024 + 136800000000 \<le> clock (fresh five_minutes_late)"
    by (simp add: fresh_def five_minutes_late_def)
  have now5: "clock (fresh five_minutes_late) = five_minutes_late"
    by (simp add: fresh_def)
  from past_time_is_scheduled_unclamped [where chain = "stub_chain ''call Sam'' time_utc"
      and fromiso = fromisoformat and upd = sam_update and st = "fresh five_minutes_late",
      OF stub_chain_fields(1) stub_chain_fields(2) stub_chain_fields(3)
        parse_time_utc fire_time_utc late5]
  obtain s5 where run5: "handle_message fromisoformat (stub_chain ''call Sam'' time_utc)
        sam_update (fresh five_minutes_late) = (Returns (), s5)"
    and clk5: "clock s5 = clock (fresh five_minutes_late)"
    and js5: "jobs s5 = jobs (fresh five_minutes_late)
        @ [\<lparr>callback = SendReminder,
            when_delay = new_year_2024 + 136800000000 - clock (fresh five_minutes_late),
            chat_id = effective_chat_id sam_update, data = ''call Sam'',
            run_at = new_year_2024 + 136800000000\<rparr>]"
    and drop5: "misfire_grace_time
          < clock (fresh five_minutes_late) - (new_year_2024 + 136800000000) \<longrightarrow>
        (\<forall>t. sent (advance_to t s5) = sent (advance_to t (fresh five_minutes_late)))"
    and gone5: "jobs (advance_to (clock s5) s5)
        = jobs (advance_to (clock (fresh five_minutes_late)) (fresh five_minutes_late))"
    by (elim exE conjE) (rule that)
  have a5: "map when_delay (jobs s5) = [- 300000000]"
    using js5 by (simp add: fresh_def five_minutes_late_def)
  have cond5: "misfire_grace_time
      < clock (fresh five_minutes_late) - (new_year_2024 + 136800000000)"
    by (simp add: fresh_def five_minutes_late_def misfire_grace_time_def)
  have never: "\<forall>t. sent (advance_to t s5) = []"
    using drop5 [rule_format, OF cond5] by (simp add: advance_fresh)
  have b5: "sent (advance_to five_minutes_late s5) = []"
    using never by simp
  have c5: "sent (advance_to (five_minutes_late + 999999999999) s5) = []"
    using never by simp
  have d5: "jobs (advance_to five_minutes_late s5) = []"
    using gone5 by (simp add: clk5 now5 advance_fresh)
  have late0: "new_year_2024 + 136800000000 \<le> clock (fresh half_second_late)"
    by (simp add: fresh_def half_second_late_def)
  have now0: "clock (fresh half_second_late) = half_second_late"
    by (simp add: fresh_def)
  from past_time_is_scheduled_unclamped [where chain = "stub_chain ''call Sam'' time_utc"
      and fromiso = fromisoformat and upd = sam_update and st = "fresh half_second_late",
      OF stub_chain_fields(1) stub_chain_fields(2) stub_chain_fields(3)
        parse_time_utc fire_time_utc late0]
  obtain s0 where run0: "handle_message fromisoformat (stub_chain ''call Sam'' time_utc)
        sam_update (fresh half_second_late) = (Returns (), s0)"
    and clk0: "clock s0 = clock (fresh half_second_late)"
    and js0: "jobs s0 = jobs (fresh half_second_late)
        @ [\<lparr>callback = SendReminder,
            when_delay = new_year_2024 + 136800000000 - clock (fresh half_second_late),
            chat_id = effective_chat_id sam_update, data = ''call Sam'',
            run_at = new_year_2024 + 136800000000\<rparr>]"
    and run_now0: "clock (fresh half_second_late) - (new_year_2024 + 136800000000)
          \<le> misfire_grace_time \<longrightarrow>
        mset (sent (advance_to (clock s0) s0))
          = mset (sent (advance_to (clock (fresh half_second_late)) (fresh half_second_late)))
              + {#(effective_chat_id sam_update, ''Reminder: '' @ ''call Sam'')#}"
    and gone0: "jobs (advance_to (clock s0) s0)
        = jobs (advance_to (clock (fresh half_second_late)) (fresh half_second_late))"
    by (elim exE conjE) (rule that)
  have a0: "map when_delay (jobs s0) = [- 500000]"
    using js0 by (simp add: fresh_def half_second_late_def)
  have cond0: "clock (fresh half_second_late) - (new_year_2024 + 136800000000)
      \<le> misfire_grace_time"
    by (simp add: fresh_def half_second_late_def misfire_grace_time_def)
  have b0: "mset (sent (advance_to half_second_late s0)) = {#(42, ''Reminder: call Sam'')#}"
    using run_now0 [rule_format, OF cond0]
    by (simp add: clk0 now0 advance_fresh sam_update_fields)
  have d0: "jobs (advance_to half_second_late s0) = []"
    using gone0 by (simp add: clk0 now0 advance_fresh)
  have missed_case: "\<exists>st'. handle_message fromisoformat (stub_chain ''call Sam'' time_utc)
        sam_update (fresh five_minutes_late) = (Returns (), st')
      \<and> map when_delay (jobs st') = [- 300000000]
      \<and> sent (advance_to five_minutes_late st') = []
      \<and> sent (advance_to (five_minutes_late + 999999999999) st') = []
      \<and> jobs (advance_to five_minutes_late st') = []"
    by (intro exI [of _ s5] conjI run5 a5 b5 c5 d5)
  have run_case: "\<exists>st'. handle_message fromisoformat (stub_chain ''call Sam'' time_utc)
        sam_update (fresh half_second_late) = (Returns (), st')
      \<and> map when_delay (jobs st') = [- 500000]
      \<and> mset (sent (advance_to half_second_late st')) = {#(42, ''Reminder: call Sam'')#}
      \<and> jobs (advance_to half_second_late st') = []"
    by (intro exI [of _ s0] conjI run0 a0 b0 d0)
  show ?thesis
    by (intro conjI late5 missed_case late0 run_case)
qed

text \<open>
  C7. Take a parsed time with an explicit offset and a parsed time without offset whose
  fields are the first one's moved to UTC (its fields count the first one's count minus the
  offset). Both denote the same instant after lines 67 and 68, and the handler registers the
  same job for both: same delay, same run instant.
\<close>

theorem same_instant_same_schedule:
  assumes "chainA (message_text upd) = Returns parsedA"
    and "parsedA ''task'' = Some task"
    and "parsedA ''time'' = Some tsA"
    and "fromiso tsA = Some dA"
    and "chainB (message_text upd) = Returns parsedB"
    and "parsedB ''task'' = Some task"
    and "parsedB ''time'' = Some tsB"
    and "fromiso tsB = Some dB"
    and "tzinfo dA = Some off"
    and "tzinfo dB = None"
    and "naive_micros dB = naive_micros dA - off"
  shows "utc_micros (assume_utc dA) = utc_micros (assume_utc dB)
           \<and> fst (handle_message fromiso chainA upd st) = Returns ()
           \<and> fst (handle_message fromiso chainB upd st) = Returns ()
           \<and> jobs (snd (handle_message fromiso chainA upd st))
               = jobs (snd (handle_message fromiso chainB upd st))"
proof -
  have iA: "utc_micros (assume_utc dA) = Some (naive_micros dA - off)"
    using assms(9) by (simp add: utc_micros_assume_utc)
  have iB: "utc_micros (assume_utc dB) = Some (naive_micros dA - off)"
    using assms(10,11) by (simp add: utc_micros_assume_utc)
  note okA = handle_message_ok [where chain = chainA and fromiso = fromiso
      and parsed = parsedA and st = st, OF assms(1-4) iA]
  note okB = handle_message_ok [where chain = chainB and fromiso = fromiso
      and parsed = parsedB and st = st, OF assms(5-8) iB]
  show ?thesis
    by (simp add: iA iB okA okB)
qed

theorem same_instant_same_schedule_witness:
  "tzinfo at_4pm_plus2 = Some 7200000000 \<and> tzinfo (at_2pm None) = None
     \<and> naive_micros (at_2pm None) = naive_micros at_4pm_plus2 - 7200000000
     \<and> utc_micros (assume_utc at_4pm_plus2) = utc_micros (assume_utc (at_2pm None))
     \<and> jobs (snd (handle_message fromisoformat (stub_chain ''call Sam'' time_plus2)
                    sam_update (fresh new_year_2024)))
         = jobs (snd (handle_message fromisoformat (stub_chain ''call Sam'' time_naive)
                        sam_update (fresh new_year_2024)))"
proof -
  have aware: "tzinfo at_4pm_plus2 = Some 7200000000"
    by (simp add: at_4pm_plus2_def)
  have naive: "tzinfo (at_2pm None) = None"
    by (simp add: at_2pm_def)
  have same: "naive_micros (at_2pm None) = naive_micros at_4pm_plus2 - 7200000000"
    by code_simp
  note inst = same_instant_same_schedule [where chainA = "stub_chain ''call Sam'' time_plus2"
      and chainB = "stub_chain ''call Sam'' time_naive" and fromiso = fromisoformat
      and upd = sam_update and st = "fresh new_year_2024",
      OF stub_chain_fields(1) stub_chain_fields(2) stub_chain_fields(3) parse_time_plus2
        stub_chain_fields(1) stub_chain_fields(2) stub_chain_fields(3) parse_time_naive
        aware naive same]
  show ?thesis
    by (intro conjI aware naive same inst [THEN conjunct1]
        inst [THEN conjunct2, THEN conjunct2, THEN conjunct2])
qed




text \<open>
  C9. The job that a successful call registers carries the chat of the message it came from,
  and running that job sends its one message to that chat. So whatever the scheduler does
  with the job, the chats written to are those written to without the reminder and at most
  once more the originating chat; and when the reminder is run (its instant reached, the
  request not missed) it is exactly once more the originating chat.
\<close>

theorem reminder_goes_to_originating_chat:
  assumes "chain (message_text upd) = Returns parsed"
    and "parsed ''task'' = Some task"
    and "parsed ''time'' = Some ts"
    and "fromiso ts = Some d"
    and "utc_micros (assume_utc d) = Some fire"
  shows "\<exists>st'. handle_message fromiso chain upd st = (Returns (), st')
           \<and> map chat_id (jobs st') = map chat_id (jobs st) @ [effective_chat_id upd]
           \<and> (\<forall>s. map fst (sent (run_job (last (jobs st')) s))
                      = map fst (sent s) @ [effective_chat_id upd])
           \<and> (\<forall>t. mset (map fst (sent (advance_to t st')))
                      \<subseteq># mset (map fst (sent (advance_to t st))) + {#effective_chat_id upd#})
           \<and> (\<forall>t. fire \<le> t \<and> clock st \<le> t \<and> clock st - fire \<le> misfire_grace_time \<longrightarrow>
                 mset (map fst (sent (advance_to t st')))
                   = mset (map fst (sent (advance_to t st))) + {#effective_chat_id upd#})"
proof -
  define j where "j = \<lparr>callback = SendReminder, when_delay = fire - clock st,
      chat_id = effective_chat_id upd, data = task, run_at = fire\<rparr>"
  define r where "r = replies st @ [(effective_chat_id upd,
      ''Got it! I'' @ [CHR 0x27] @ ''ll remind you to '' @ task @ '' at ''
        @ isoformat (assume_utc d))]"
  define st' where "st' = st\<lparr>jobs := jobs st @ [j], replies := r\<rparr>"
  have run: "handle_message fromiso chain upd st = (Returns (), st')"
    unfolding st'_def j_def r_def
    by (rule handle_message_ok [where chain = chain and fromiso = fromiso
          and parsed = parsed and st = st, OF assms])
  have cid: "chat_id j = effective_chat_id upd"
    by (simp add: j_def)
  have js: "map chat_id (jobs st') = map chat_id (jobs st) @ [effective_chat_id upd]"
    by (simp add: st'_def cid)
  have cb: "\<forall>s. map fst (sent (run_job (last (jobs st')) s))
      = map fst (sent s) @ [effective_chat_id upd]"
    by (simp add: st'_def run_job_eq cid)
  have runs: "mset (map fst (sent (advance_to t st')))
      = mset (map fst (sent (advance_to t st))) + {#effective_chat_id upd#}"
    if "clock st \<le> t \<and> due t j \<and> \<not> missed j" for t
  proof -
    have "mset (sent (advance_to t st'))
        = mset (sent (advance_to t st)) + {#(chat_id j, ''Reminder: '' @ data j)#}"
      unfolding st'_def using that by (simp add: advance_to_snoc_runs)
    then have "image_mset fst (mset (sent (advance_to t st')))
        = image_mset fst (mset (sent (advance_to t st))
            + {#(chat_id j, ''Reminder: '' @ data j)#})"
      by simp
    then show ?thesis
      by (simp add: cid)
  qed
  have idle: "sent (advance_to t st') = sent (advance_to t st)"
    if "\<not> (clock st \<le> t \<and> due t j \<and> \<not> missed j)" for t
    unfolding st'_def using that by (rule advance_to_snoc_idle)
  have most: "\<forall>t. mset (map fst (sent (advance_to t st')))
      \<subseteq># mset (map fst (sent (advance_to t st))) + {#effective_chat_id upd#}"
  proof
    fix t
    show "mset (map fst (sent (advance_to t st')))
        \<subseteq># mset (map fst (sent (advance_to t st))) + {#effective_chat_id upd#}"
    proof (cases "clock st \<le> t \<and> due t j \<and> \<not> missed j")
      case True
      show ?thesis using runs [OF True] by simp
    next
      case False
      then show ?thesis by (simp add: idle)
    qed
  qed
  have at: "\<forall>t. fire \<le> t \<and> clock st \<le> t \<and> clock st - fire \<le> misfire_grace_time \<longrightarrow>
      mset (map fst (sent (advance_to t st')))
        = mset (map fst (sent (advance_to t st))) + {#effective_chat_id upd#}"
  proof (intro allI impI)
    fix t
    assume "fire \<le> t \<and> clock st \<le> t \<and> clock st - fire \<le> misfire_grace_time"
    then have "clock st \<le> t \<and> due t j \<and> \<not> missed j"
      by (simp add: due_def missed_def j_def)
    then show "mset (map fst (sent (advance_to t st')))
        = mset (map fst (sent (advance_to t st))) + {#effective_chat_id upd#}"
      by (rule runs)
  qed
  show ?thesis
    by (intro exI [of _ st'] conjI run js cb most at)
qed

theorem reminder_goes_to_originating_chat_witness:
  "\<exists>st'. handle_message fromisoformat (stub_chain ''call Sam'' time_plus2) sam_update
            (fresh new_year_2024) = (Returns (), st')
     \<and> map chat_id (jobs st') = [42]
     \<and> mset (map fst (sent (advance_to (new_year_2024 + 136800000000) st'))) = {#42#}"
proof -
  have cond: "new_year_2024 + 136800000000 \<le> new_year_2024 + 136800000000
      \<and> clock (fresh new_year_2024) \<le> new_year_2024 + 136800000000
      \<and> clock (fresh new_year_2024) - (new_year_2024 + 136800000000) \<le> misfire_grace_time"
    by (simp add: fresh_def misfire_grace_time_def)
  from reminder_goes_to_originating_chat [where chain = "stub_chain ''call Sam'' time_plus2"
      and fromiso = fromisoformat and upd = sam_update and st = "fresh new_year_2024",
      OF stub_chain_fields(1) stub_chain_fields(2) stub_chain_fields(3)
        parse_time_plus2 fire_time_plus2]
  obtain st' where run: "handle_message fromisoformat (stub_chain ''call Sam'' time_plus2)
        sam_update (fresh new_year_2024) = (Returns (), st')"
    and js: "map chat_id (jobs st')
        = map chat_id (jobs (fresh new_year_2024)) @ [effective_chat_id sam_update]"
    and at: "\<forall>t. new_year_2024 + 136800000000 \<le> t \<and> clock (fresh new_year_2024) \<le> t
          \<and> clock (fresh new_year_2024) - (new_year_2024 + 136800000000)
              \<le> misfire_grace_time \<longrightarrow>
        mset (map fst (sent (advance_to t st')))
          = mset (map fst (sent (advance_to t (fresh new_year_2024))))
              + {#effective_chat_id sam_update#}"
    by (elim exE conjE) (rule that)
  have a: "map chat_id (jobs st') = [42]"
    using js by (simp add: fresh_def sam_update_fields)
  have b: "mset (map fst (sent (advance_to (new_year_2024 + 136800000000) st'))) = {#42#}"
    using at [rule_format, OF cond]
    by (simp add: advance_fresh sam_update_fields)
  show ?thesis
    by (intro conjI exI [of _ st'] run a b)
qed

text \<open>
  C10. The callback sends one message, to the job's chat, whose text is \<open>Reminder: \<close>
  followed by the job's data, and that text is never the bare data. The data of a job is the
  extracted task. So whatever the scheduler does with the job, the texts sent are those sent
  without the reminder and at most once more \<open>Reminder: \<close> followed by the task; and when
  the reminder is run it is exactly once more that text.
\<close>

theorem reminder_text_has_prefix:
  assumes "chain (message_text upd) = Returns parsed"
    and "parsed ''task'' = Some task"
    and "parsed ''time'' = Some ts"
    and "fromiso ts = Some d"
    and "utc_micros (assume_utc d) = Some fire"
  shows "(\<forall>j s. sent (send_reminder j s) = sent s @ [(chat_id j, ''Reminder: '' @ data j)]
                  \<and> ''Reminder: '' @ data j \<noteq> data j)
           \<and> (\<exists>st'. handle_message fromiso chain upd st = (Returns (), st')
                  \<and> map data (jobs st') = map data (jobs st) @ [task]
                  \<and> (\<forall>t. mset (map snd (sent (advance_to t st')))
                             \<subseteq># mset (map snd (sent (advance_to t st)))
                                   + {#''Reminder: '' @ task#})
                  \<and> (\<forall>t. fire \<le> t \<and> clock st \<le> t
                            \<and> clock st - fire \<le> misfire_grace_time \<longrightarrow>
                        mset (map snd (sent (advance_to t st')))
                          = mset (map snd (sent (advance_to t st)))
                              + {#''Reminder: '' @ task#}))"
proof -
  define j where "j = \<lparr>callback = SendReminder, when_delay = fire - clock st,
      chat_id = effective_chat_id upd, data = task, run_at = fire\<rparr>"
  define r where "r = replies st @ [(effective_chat_id upd,
      ''Got it! I'' @ [CHR 0x27] @ ''ll remind you to '' @ task @ '' at ''
        @ isoformat (assume_utc d))]"
  define st' where "st' = st\<lparr>jobs := jobs st @ [j], replies := r\<rparr>"
  have run: "handle_message fromiso chain upd st = (Returns (), st')"
    unfolding st'_def j_def r_def
    by (rule handle_message_ok [where chain = chain and fromiso = fromiso
          and parsed = parsed and st = st, OF assms])
  have cb: "\<forall>j s. sent (send_reminder j s) = sent s @ [(chat_id j, ''Reminder: '' @ data j)]
                  \<and> ''Reminder: '' @ data j \<noteq> data j"
    by (simp add: send_reminder_def send_message_def)
  have dat: "data j = task"
    by (simp add: j_def)
  have js: "map data (jobs st') = map data (jobs st) @ [task]"
    by (simp add: st'_def dat)
  have runs: "mset (map snd (sent (advance_to t st')))
      = mset (map snd (sent (advance_to t st))) + {#''Reminder: '' @ task#}"
    if "clock st \<le> t \<and> due t j \<and> \<not> missed j" for t
  proof -
    have "mset (sent (advance_to t st'))
        = mset (sent (advance_to t st)) + {#(chat_id j, ''Reminder: '' @ data j)#}"
      unfolding st'_def using that by (simp add: advance_to_snoc_runs)
    then have "image_mset snd (mset (sent (advance_to t st')))
        = image_mset snd (mset (sent (advance_to t st))
            + {#(chat_id j, ''Reminder: '' @ data j)#})"
      by simp
    then show ?thesis
      by (simp add: dat)
  qed
  have idle: "sent (advance_to t st') = sent (advance_to t st)"
    if "\<not> (clock st \<le> t \<and> due t j \<and> \<not> missed j)" for t
    unfolding st'_def using that by (rule advance_to_snoc_idle)
  have most: "\<forall>t. mset (map snd (sent (advance_to t st')))
      \<subseteq># mset (map snd (sent (advance_to t st))) + {#''Reminder: '' @ task#}"
  proof
    fix t
    show "mset (map snd (sent (advance_to t st')))
        \<subseteq># mset (map snd (sent (advance_to t st))) + {#''Reminder: '' @ task#}"
    proof (cases "clock st \<le> t \<and> due t j \<and> \<not> missed j")
      case True
      show ?thesis using runs [OF True] by simp
    next
      case False
      then show ?thesis by (simp add: idle)
    qed
  qed
  have at: "\<forall>t. fire \<le> t \<and> clock st \<le> t \<and> clock st - fire \<le> misfire_grace_time \<longrightarrow>
      mset (map snd (sent (advance_to t st')))
        = mset (map snd (sent (advance_to t st))) + {#''Reminder: '' @ task#}"
  proof (intro allI impI)
    fix t
    assume "fire \<le> t \<and> clock st \<le> t \<and> clock st - fire \<le> misfire_grace_time"
    then have "clock st \<le> t \<and> due t j \<and> \<not> missed j"
      by (simp add: due_def missed_def j_def)
    then show "mset (map snd (sent (advance_to t st')))
        = mset (map snd (sent (advance_to t st))) + {#''Reminder: '' @ task#}"
      by (rule runs)
  qed
  have handled: "\<exists>st'. handle_message fromiso chain upd st = (Returns (), st')
      \<and> map data (jobs st') = map data (jobs st) @ [task]
      \<and> (\<forall>t. mset (map snd (sent (advance_to t st')))
                 \<subseteq># mset (map snd (sent (advance_to t st))) + {#''Reminder: '' @ task#})
      \<and> (\<forall>t. fire \<le> t \<and> clock st \<le> t \<and> clock st - fire \<le> misfire_grace_time \<longrightarrow>
            mset (map snd (sent (advance_to t st')))
              = mset (map snd (sent (advance_to t st))) + {#''Reminder: '' @ task#})"
    by (intro exI [of _ st'] conjI run js most at)
  from cb handled show ?thesis ..
qed

theorem reminder_text_has_prefix_witness:
  "\<exists>st'. handle_message fromisoformat (stub_chain ''call Sam'' time_naive) sam_update
            (fresh new_year_2024) = (Returns (), st')
     \<and> map data (jobs st') = [''call Sam'']
     \<and> mset (map snd (sent (advance_to (new_year_2024 + 136800000000) st')))
         = {#''Reminder: call Sam''#}"
proof -
  have cond: "new_year_2024 + 136800000000 \<le> new_year_2024 + 136800000000
      \<and> clock (fresh new_year_2024) \<le> new_year_2024 + 136800000000
      \<and> clock (fresh new_year_2024) - (new_year_2024 + 136800000000) \<le> misfire_grace_time"
    by (simp add: fresh_def misfire_grace_time_def)
  from reminder_text_has_prefix [where chain = "stub_chain ''call Sam'' time_naive"
      and fromiso = fromisoformat and upd = sam_update and st = "fresh new_year_2024",
      OF stub_chain_fields(1) stub_chain_fields(2) stub_chain_fields(3)
        parse_time_naive fire_time_naive, THEN conjunct2]
  obtain st' where run: "handle_message fromisoformat (stub_chain ''call Sam'' time_naive)
        sam_update (fresh new_year_2024) = (Returns (), st')"
    and js: "map data (jobs st') = map data (jobs (fresh new_year_2024)) @ [''call Sam'']"
    and at: "\<forall>t. new_year_2024 + 136800000000 \<le> t \<and> clock (fresh new_year_2024) \<le> t
          \<and> clock (fresh new_year_2024) - (new_year_2024 + 136800000000)
              \<le> misfire_grace_time \<longrightarrow>
        mset (map snd (sent (advance_to t st')))
          = mset (map snd (sent (advance_to t (fresh new_year_2024))))
              + {#''Reminder: '' @ ''call Sam''#}"
    by (elim exE conjE) (rule that)
  have a: "map data (jobs st') = [''call Sam'']"
    using js by (simp add: fresh_def)
  have b: "mset (map snd (sent (advance_to (new_year_2024 + 136800000000) st')))
      = {#''Reminder: call Sam''#}"
    using at [rule_format, OF cond]
    by (simp add: advance_fresh)
  show ?thesis
    by (intro conjI exI [of _ st'] run a b)
qed

end
